theory Spec2Isabelle
  imports Main "HOL-Library.Sublist" "HOL-Library.Monad_Syntax"
begin

section \<open>Runtime primitives used by the components\<close>

text \<open>
  The components are TypeScript running on a JavaScript engine. The engine's string,
  number and \<open>Date\<close> operations they call are modelled here as executable functions.
  A JavaScript string is modelled as a \<open>string\<close> whose characters are the code units
  \<open>0..255\<close> (Latin-1); code units above that range are outside the embedding.
\<close>

subsection \<open>Strings\<close>

definition isWhiteSpace :: "char \<Rightarrow> bool" where
  \<comment> \<open>White space and line terminators stripped by \<open>String.prototype.trim\<close>:
      TAB, LF, VT, FF, CR, SP and NBSP.\<close>
  "isWhiteSpace c = (of_char c \<in> set [9, 10, 11, 12, 13, 32, 160 :: nat])"

definition trim :: "string \<Rightarrow> string" where
  "trim s = rev (dropWhile isWhiteSpace (rev (dropWhile isWhiteSpace s)))"

definition lowerChar :: "char \<Rightarrow> char" where
  \<comment> \<open>\<open>A..Z\<close> and the Latin-1 capitals \<open>0xC0..0xDE\<close> (without the multiplication
      sign \<open>0xD7\<close>) move up by 32.\<close>
  "lowerChar c =
     (let n = (of_char c :: nat)
      in if (65 \<le> n \<and> n \<le> 90) \<or> (192 \<le> n \<and> n \<le> 222 \<and> n \<noteq> 215)
         then char_of (n + 32) else c)"

definition toLowerCase :: "string \<Rightarrow> string" where
  "toLowerCase s = map lowerChar s"

fun str_includes :: "string \<Rightarrow> string \<Rightarrow> bool" where
  \<comment> \<open>\<open>hay.includes(q)\<close>: does \<open>q\<close> start at some position of \<open>hay\<close>.\<close>
  "str_includes [] q = (q = [])"
| "str_includes (h # t) q = (prefix q (h # t) \<or> str_includes t q)"

definition truthy :: "string \<Rightarrow> bool" where
  \<comment> \<open>A string is falsy exactly when it is empty (\<open>filter(Boolean)\<close>, \<open>||\<close>, \<open>!\<close>).\<close>
  "truthy s = (s \<noteq> [])"

definition orUndefined :: "string \<Rightarrow> string option" where
  \<comment> \<open>\<open>s || undefined\<close>\<close>
  "orUndefined s = (if truthy s then Some s else None)"

definition digitChar :: "nat \<Rightarrow> char" where
  "digitChar d = char_of (48 + d)"

fun showNat :: "nat \<Rightarrow> string" where
  "showNat n = (if n < 10 then [digitChar n] else showNat (n div 10) @ [digitChar (n mod 10)])"

declare showNat.simps [simp del]

definition String :: "int \<Rightarrow> string" where
  \<comment> \<open>\<open>String(n)\<close> for an integral number.\<close>
  "String n = (if n < 0 then CHR ''-'' # showNat (nat (- n)) else showNat (nat n))"

definition padStart :: "nat \<Rightarrow> char \<Rightarrow> string \<Rightarrow> string" where
  "padStart w c s = replicate (w - length s) c @ s"

definition uniq :: "'a list \<Rightarrow> 'a list" where
  \<comment> \<open>\<open>Array.from(new Set(xs))\<close>: the first occurrence of every element, in order.\<close>
  "uniq xs = rev (remdups (rev xs))"

subsection \<open>Dates\<close>

text \<open>
  A \<open>Date\<close> holds a time value: milliseconds since the epoch, or \<open>NaN\<close> (an invalid
  date, here \<open>None\<close>). The runtime's local zone is a parameter: a fixed offset from UTC
  in minutes (daylight-saving transitions are outside the embedding), together with the
  clock reading that \<open>new Date()\<close> returns.
\<close>

record js_env =
  tz_offset :: int
  now :: int

datatype js_error = RangeError

definition msPerDay :: int where
  "msPerDay = 86400000"

definition days_from_civil :: "int \<Rightarrow> int \<Rightarrow> int \<Rightarrow> int" where
  \<comment> \<open>Day number of the first-of-March-based proleptic Gregorian date
      \<open>y-m-d\<close> (\<open>m\<close> in \<open>1..12\<close>), day 0 being 1970-01-01.\<close>
  "days_from_civil y m d =
     (let y' = (if m \<le> 2 then y - 1 else y);
          era = y' div 400;
          yoe = y' - era * 400;
          mp = (if m > 2 then m - 3 else m + 9);
          doy = (153 * mp + 2) div 5 + d - 1;
          doe = yoe * 365 + yoe div 4 - yoe div 100 + doy
      in era * 146097 + doe - 719468)"

definition civil_from_days :: "int \<Rightarrow> int \<times> int \<times> int" where
  "civil_from_days z0 =
     (let z = z0 + 719468;
          era = z div 146097;
          doe = z - era * 146097;
          yoe = (doe - doe div 1460 + doe div 36524 - doe div 146096) div 365;
          doy = doe - (365 * yoe + yoe div 4 - yoe div 100);
          mp = (5 * doy + 2) div 153;
          d = doy - (153 * mp + 2) div 5 + 1;
          m = (if mp < 10 then mp + 3 else mp - 9);
          y = yoe + era * 400 + (if m \<le> 2 then 1 else 0)
      in (y, m, d))"

definition MakeDay :: "int \<Rightarrow> int \<Rightarrow> int \<Rightarrow> int" where
  \<comment> \<open>Month is zero-based and may lie outside \<open>0..11\<close>; the date may lie outside the month.\<close>
  "MakeDay year month date =
     days_from_civil (year + month div 12) (month mod 12 + 1) 1 + date - 1"

definition MakeTime :: "int \<Rightarrow> int \<Rightarrow> int \<Rightarrow> int \<Rightarrow> int" where
  "MakeTime h mi s ms = h * 3600000 + mi * 60000 + s * 1000 + ms"

definition MakeDate :: "int \<Rightarrow> int \<Rightarrow> int" where
  "MakeDate day time = day * msPerDay + time"

definition TimeClip :: "int \<Rightarrow> int option" where
  "TimeClip t = (if \<bar>t\<bar> > 8640000000000000 then None else Some t)"

definition fullYear :: "int \<Rightarrow> int" where
  \<comment> \<open>\<open>Date.UTC\<close> and the component constructor read years \<open>0..99\<close> as \<open>1900..1999\<close>.\<close>
  "fullYear y = (if 0 \<le> y \<and> y \<le> 99 then 1900 + y else y)"

definition LocalTime :: "js_env \<Rightarrow> int \<Rightarrow> int" where
  "LocalTime env t = t + tz_offset env * 60000"

definition UTC_of_local :: "js_env \<Rightarrow> int \<Rightarrow> int" where
  "UTC_of_local env t = t - tz_offset env * 60000"

definition Date_UTC :: "int \<Rightarrow> int \<Rightarrow> int \<Rightarrow> int \<Rightarrow> int \<Rightarrow> int \<Rightarrow> int \<Rightarrow> int option" where
  "Date_UTC y mo d h mi s ms =
     TimeClip (MakeDate (MakeDay (fullYear y) mo d) (MakeTime h mi s ms))"

definition new_Date :: "js_env \<Rightarrow> int \<Rightarrow> int \<Rightarrow> int \<Rightarrow> int \<Rightarrow> int \<Rightarrow> int \<Rightarrow> int option" where
  \<comment> \<open>\<open>new Date(y, mo, d, h, mi, s)\<close>: the components are local time.\<close>
  "new_Date env y mo d h mi s =
     TimeClip (UTC_of_local env (MakeDate (MakeDay (fullYear y) mo d) (MakeTime h mi s 0)))"

definition YearFromTime :: "int \<Rightarrow> int" where
  "YearFromTime t = fst (civil_from_days (t div msPerDay))"

definition MonthFromTime :: "int \<Rightarrow> int" where
  \<comment> \<open>zero-based\<close>
  "MonthFromTime t = fst (snd (civil_from_days (t div msPerDay))) - 1"

definition DateFromTime :: "int \<Rightarrow> int" where
  "DateFromTime t = snd (snd (civil_from_days (t div msPerDay)))"

definition HourFromTime :: "int \<Rightarrow> int" where
  "HourFromTime t = (t mod msPerDay) div 3600000"

definition MinFromTime :: "int \<Rightarrow> int" where
  "MinFromTime t = (t mod 3600000) div 60000"

definition SecFromTime :: "int \<Rightarrow> int" where
  "SecFromTime t = (t mod 60000) div 1000"

definition msFromTime :: "int \<Rightarrow> int" where
  "msFromTime t = t mod 1000"

definition getFullYear :: "js_env \<Rightarrow> int \<Rightarrow> int" where
  "getFullYear env t = YearFromTime (LocalTime env t)"

definition getMonth :: "js_env \<Rightarrow> int \<Rightarrow> int" where
  "getMonth env t = MonthFromTime (LocalTime env t)"

definition getDate :: "js_env \<Rightarrow> int \<Rightarrow> int" where
  "getDate env t = DateFromTime (LocalTime env t)"

definition getHours :: "js_env \<Rightarrow> int \<Rightarrow> int" where
  "getHours env t = HourFromTime (LocalTime env t)"

definition getMinutes :: "js_env \<Rightarrow> int \<Rightarrow> int" where
  "getMinutes env t = MinFromTime (LocalTime env t)"

definition getSeconds :: "js_env \<Rightarrow> int \<Rightarrow> int" where
  "getSeconds env t = SecFromTime (LocalTime env t)"

definition getMilliseconds :: "js_env \<Rightarrow> int \<Rightarrow> int" where
  "getMilliseconds env t = msFromTime (LocalTime env t)"

definition isoYear :: "int \<Rightarrow> string" where
  \<comment> \<open>Four digits for \<open>0..9999\<close>, otherwise a sign and six digits.\<close>
  "isoYear y =
     (if 0 \<le> y \<and> y \<le> 9999 then padStart 4 (CHR ''0'') (String y)
      else (if y < 0 then CHR ''-'' else CHR ''+'') # padStart 6 (CHR ''0'') (String \<bar>y\<bar>))"

definition toISOString :: "int option \<Rightarrow> js_error + string" where
  \<comment> \<open>Throws \<open>RangeError\<close> on an invalid date.\<close>
  "toISOString d =
     (case d of
        None \<Rightarrow> Inl RangeError
      | Some t \<Rightarrow>
          Inr (isoYear (YearFromTime t) @ ''-'' @
               padStart 2 (CHR ''0'') (String (MonthFromTime t + 1)) @ ''-'' @
               padStart 2 (CHR ''0'') (String (DateFromTime t)) @ ''T'' @
               padStart 2 (CHR ''0'') (String (HourFromTime t)) @ '':'' @
               padStart 2 (CHR ''0'') (String (MinFromTime t)) @ '':'' @
               padStart 2 (CHR ''0'') (String (SecFromTime t)) @ ''.'' @
               padStart 3 (CHR ''0'') (String (msFromTime t)) @ ''Z''))"

definition digitVal :: "char \<Rightarrow> nat option" where
  "digitVal c =
     (let n = (of_char c :: nat) in if 48 \<le> n \<and> n \<le> 57 then Some (n - 48) else None)"

fun takeDigits :: "nat \<Rightarrow> nat \<Rightarrow> string \<Rightarrow> (nat \<times> string) option" where
  \<comment> \<open>Exactly \<open>n\<close> decimal digits; the accumulator is the value read so far.\<close>
  "takeDigits 0 acc s = Some (acc, s)"
| "takeDigits (Suc n) acc [] = None"
| "takeDigits (Suc n) acc (c # cs) =
     (case digitVal c of None \<Rightarrow> None | Some d \<Rightarrow> takeDigits n (10 * acc + d) cs)"

definition expect :: "char \<Rightarrow> string \<Rightarrow> string option" where
  "expect c s = (case s of [] \<Rightarrow> None | x # xs \<Rightarrow> if x = c then Some xs else None)"

definition parseYear :: "string \<Rightarrow> (int \<times> string) option" where
  \<comment> \<open>\<open>YYYY\<close>, or an expanded year \<open>+YYYYYY\<close> / \<open>-YYYYYY\<close> (\<open>-000000\<close> is refused).\<close>
  "parseYear s =
     (case s of
        [] \<Rightarrow> None
      | c # cs \<Rightarrow>
          if c = CHR ''+'' then
            (case takeDigits 6 0 cs of None \<Rightarrow> None | Some (y, r) \<Rightarrow> Some (int y, r))
          else if c = CHR ''-'' then
            (case takeDigits 6 0 cs of
               None \<Rightarrow> None
             | Some (y, r) \<Rightarrow> if y = 0 then None else Some (- int y, r))
          else
            (case takeDigits 4 0 s of None \<Rightarrow> None | Some (y, r) \<Rightarrow> Some (int y, r)))"

definition parseFraction :: "string \<Rightarrow> (nat \<times> string) option" where
  \<comment> \<open>After the dot: one or more digits, of which the first three count as milliseconds.\<close>
  "parseFraction s =
     (let ds = takeWhile (\<lambda>c. digitVal c \<noteq> None) s;
          r = dropWhile (\<lambda>c. digitVal c \<noteq> None) s
      in if ds = [] then None
         else (case takeDigits 3 0 (take 3 (ds @ ''00'')) of
                 None \<Rightarrow> None
               | Some (ms, _) \<Rightarrow> Some (ms, r)))"

definition parseSeconds :: "string \<Rightarrow> (nat \<times> nat \<times> string) option" where
  \<comment> \<open>The optional \<open>:ss\<close> and \<open>.sss\<close> after \<open>HH:mm\<close>.\<close>
  "parseSeconds s =
     (case s of
        c # cs \<Rightarrow>
          if c = CHR '':'' then
            (case takeDigits 2 0 cs of
               None \<Rightarrow> None
             | Some (sec, r) \<Rightarrow>
                 (case r of
                    c' # cs' \<Rightarrow>
                      if c' = CHR ''.'' then
                        (case parseFraction cs' of
                           None \<Rightarrow> None
                         | Some (ms, r') \<Rightarrow> Some (sec, ms, r'))
                      else Some (sec, 0, r)
                  | [] \<Rightarrow> Some (sec, 0, r)))
          else Some (0, 0, s)
      | [] \<Rightarrow> Some (0, 0, s))"

definition Date_parse :: "js_env \<Rightarrow> string \<Rightarrow> int option" where
  \<comment> \<open>\<open>new Date(s)\<close> on the ECMAScript date-time string format:
      \<open>YYYY-MM-DD\<close> (UTC) or \<open>YYYY-MM-DDTHH:mm[:ss[.sss]]\<close> followed by \<open>Z\<close> (UTC) or
      by nothing (local time). Every other string gives an invalid date: what an engine
      makes of other formats is implementation-defined and not modelled.\<close>
  "Date_parse env s =
     do {
       (y, r1) \<leftarrow> parseYear s;
       r2 \<leftarrow> expect (CHR ''-'') r1;
       (mo, r3) \<leftarrow> takeDigits 2 0 r2;
       r4 \<leftarrow> expect (CHR ''-'') r3;
       (d, r5) \<leftarrow> takeDigits 2 0 r4;
       if mo < 1 \<or> 12 < mo \<or> d < 1 \<or> 31 < d then None
       else if r5 = [] then TimeClip (MakeDate (MakeDay y (int mo - 1) (int d)) 0)
       else do {
         r6 \<leftarrow> expect (CHR ''T'') r5;
         (h, r7) \<leftarrow> takeDigits 2 0 r6;
         r8 \<leftarrow> expect (CHR '':'') r7;
         (mi, r9) \<leftarrow> takeDigits 2 0 r8;
         (sec, ms, r10) \<leftarrow> parseSeconds r9;
         if 24 < h \<or> 59 < mi \<or> 59 < sec \<or> (h = 24 \<and> (mi \<noteq> 0 \<or> sec \<noteq> 0 \<or> ms \<noteq> 0))
         then None
         else
           (let t = MakeDate (MakeDay y (int mo - 1) (int d))
                      (MakeTime (int h) (int mi) (int sec) (int ms))
            in if r10 = ''Z'' then TimeClip t
               else if r10 = [] then TimeClip (UTC_of_local env t)
               else None)
       }
     }"

section \<open>components/Form.tsx: the impact-claim form\<close>

subsection \<open>The record and its schema\<close>

text \<open>
  \<open>ImpactClaim\<close> is the record type below at \<open>uri :: string list\<close>. The list page reads
  \<open>ImpactClaim & { uri: any }\<close>, the same record with another type at \<open>uri\<close>, so the
  type of that field is a parameter. An optional field is an \<open>option\<close>.
\<close>

record 'u ImpactClaimOf =
  impact_claim_id :: string
  work_scope :: string
  uri :: 'u
  work_start_time :: string
  work_end_time :: string
  description :: "string option"
  contributors_uri :: "string list option"
  rights_uri :: "string option"
  location_uri :: "string option"

type_synonym ImpactClaim = "string list ImpactClaimOf"

text \<open>
  \<open>Partial<ImpactClaim>\<close>, the type of the \<open>initial\<close> prop: every field may be absent.
  An absent \<open>initial\<close> is the value with every field absent.
\<close>

record PartialImpactClaim =
  initial_impact_claim_id :: "string option"
  initial_work_scope :: "string option"
  initial_uri :: "string list option"
  initial_work_start_time :: "string option"
  initial_work_end_time :: "string option"
  initial_description :: "string option"
  initial_contributors_uri :: "string list option"
  initial_rights_uri :: "string option"
  initial_location_uri :: "string option"

text \<open>
  The schema is built from the validation library's combinators. The library is not part
  of the repository: its two format checks, \<open>z.string().url()\<close> and
  \<open>z.string().datetime()\<close>, are parameters of the model, and its length checks
  \<open>min\<close>/\<open>max\<close> are written out. An issue carries the path of the offending value and
  a message.
\<close>

record zod =
  url_ok :: "string \<Rightarrow> bool"
  datetime_ok :: "string \<Rightarrow> bool"

record issue =
  path :: "string list"
  message :: string

definition z_min :: "nat \<Rightarrow> string \<Rightarrow> string list \<Rightarrow> 'a list \<Rightarrow> issue list" where
  \<comment> \<open>\<open>.min(n, msg)\<close> on a string or an array: at least \<open>n\<close> elements.\<close>
  "z_min n msg p xs = (if length xs < n then [\<lparr>path = p, message = msg\<rparr>] else [])"

definition z_max :: "nat \<Rightarrow> string \<Rightarrow> string list \<Rightarrow> 'a list \<Rightarrow> issue list" where
  "z_max n msg p xs = (if n < length xs then [\<lparr>path = p, message = msg\<rparr>] else [])"

definition z_check :: "(string \<Rightarrow> bool) \<Rightarrow> string \<Rightarrow> string list \<Rightarrow> string \<Rightarrow> issue list" where
  "z_check ok msg p x = (if ok x then [] else [\<lparr>path = p, message = msg\<rparr>])"

definition uriSchema :: "zod \<Rightarrow> string list \<Rightarrow> string \<Rightarrow> issue list" where
  "uriSchema z p x = z_check (url_ok z) ''Must be a valid URI'' p x"

definition dateSchema :: "zod \<Rightarrow> string list \<Rightarrow> string \<Rightarrow> issue list" where
  "dateSchema z p x = z_check (datetime_ok z) ''Must be an ISO date-time (RFC3338)'' p x"

definition ImpactClaimSchema :: "zod \<Rightarrow> ImpactClaim \<Rightarrow> issue list" where
  \<comment> \<open>The issues of \<open>ImpactClaimSchema.safeParse(record)\<close>, field by field in the order of
      the schema; the parse succeeds when there is none. The optional fields accept every
      string, every string array and absence. The messages of the two checks on
      \<open>impact_claim_id\<close> are the library's defaults.\<close>
  "ImpactClaimSchema z r =
     z_min 0 ''String must contain at least 0 character(s)'' [''impact_claim_id'']
       (impact_claim_id r) @
     z_max 255 ''String must contain at most 255 character(s)'' [''impact_claim_id'']
       (impact_claim_id r) @
     z_min 0 ''Required'' [''work_scope''] (work_scope r) @
     z_min 0 ''At least one URI is required'' [''uri''] (uri r) @
     concat (map (\<lambda>(i, u). uriSchema z [''uri'', String (int i)] u) (enumerate 0 (uri r))) @
     dateSchema z [''work_start_time''] (work_start_time r) @
     dateSchema z [''work_end_time''] (work_end_time r)"

subsection \<open>The date helpers\<close>

definition localDateTimeToISO :: "js_env \<Rightarrow> string \<Rightarrow> js_error + string" where
  "localDateTimeToISO env dt =
     (if \<not> truthy dt then Inr []
      else
        (case Date_parse env dt of
           None \<Rightarrow> toISOString None
         | Some d \<Rightarrow>
             toISOString
               (Date_UTC (getFullYear env d) (getMonth env d) (getDate env d)
                  (getHours env d) (getMinutes env d) (getSeconds env d)
                  (getMilliseconds env d))))"

definition pad :: "int option \<Rightarrow> string" where
  \<comment> \<open>\<open>String(n).padStart(2, "0")\<close>; the number of an invalid date is \<open>NaN\<close>.\<close>
  "pad n = padStart 2 (CHR ''0'') (case n of None \<Rightarrow> ''NaN'' | Some v \<Rightarrow> String v)"

definition isoToLocalDateTime :: "js_env \<Rightarrow> string option \<Rightarrow> string" where
  "isoToLocalDateTime env isoStr =
     (case isoStr of
        None \<Rightarrow> []
      | Some i \<Rightarrow>
          if \<not> truthy i then []
          else
            (let d = Date_parse env i;
                 yyyy = (case map_option (getFullYear env) d of
                           None \<Rightarrow> ''NaN'' | Some v \<Rightarrow> String v);
                 mm = pad (map_option (\<lambda>t. getMonth env t + 1) d);
                 dd = pad (map_option (getDate env) d);
                 hh = pad (map_option (getHours env) d);
                 mi = pad (map_option (getMinutes env) d)
             in yyyy @ ''-'' @ mm @ ''-'' @ dd @ ''T'' @ hh @ '':'' @ mi))"

subsection \<open>The form component\<close>

text \<open>
  What an awaited call does: it resolves, it rejects (or throws), or it never settles.
\<close>

datatype settle = Resolves | Rejects | Pending

record Props =
  onSubmit :: "(ImpactClaim \<Rightarrow> settle) option"
  initial :: PartialImpactClaim
  disabled :: bool

text \<open>
  The component's state slots. The slot of the description is \<open>descriptionText\<close> here,
  since \<open>description\<close> is the record's field.
\<close>

record FormState =
  impactClaimId :: string
  workScope :: string
  uris :: "string list"
  startLocal :: string
  endLocal :: string
  descriptionText :: string
  contributors :: "string list"
  rightsUri :: string
  locationUri :: string
  submitting :: bool
  errors :: "string \<rightharpoonup> string list"

definition orElse :: "'a option \<Rightarrow> 'a \<Rightarrow> 'a" where
  \<comment> \<open>\<open>x ?? d\<close>\<close>
  "orElse x d = (case x of None \<Rightarrow> d | Some v \<Rightarrow> v)"

definition useState :: "js_env \<Rightarrow> Props \<Rightarrow> FormState" where
  \<comment> \<open>The state of the first render.\<close>
  "useState env props =
     \<lparr>impactClaimId = orElse (initial_impact_claim_id (initial props)) [],
      workScope = orElse (initial_work_scope (initial props)) [],
      uris = orElse (initial_uri (initial props)) [[]],
      startLocal = isoToLocalDateTime env (initial_work_start_time (initial props)),
      endLocal = isoToLocalDateTime env (initial_work_end_time (initial props)),
      descriptionText = orElse (initial_description (initial props)) [],
      contributors = orElse (initial_contributors_uri (initial props)) [],
      rightsUri = orElse (initial_rights_uri (initial props)) [],
      locationUri = orElse (initial_location_uri (initial props)) [],
      submitting = False,
      errors = Map.empty\<rparr>"

definition record_of :: "js_env \<Rightarrow> FormState \<Rightarrow> js_error + ImpactClaim" where
  \<comment> \<open>The memoised \<open>record\<close> of a render. It throws when a date helper throws, and then
      the component does not render.\<close>
  "record_of env s =
     (case localDateTimeToISO env (startLocal s) of
        Inl e \<Rightarrow> Inl e
      | Inr st \<Rightarrow>
          (case localDateTimeToISO env (endLocal s) of
             Inl e \<Rightarrow> Inl e
           | Inr en \<Rightarrow>
               Inr \<lparr>impact_claim_id = trim (impactClaimId s),
                    work_scope = trim (workScope s),
                    uri = filter truthy (map trim (uris s)),
                    work_start_time = st,
                    work_end_time = en,
                    description = orUndefined (trim (descriptionText s)),
                    contributors_uri = Some (filter truthy (map trim (contributors s))),
                    rights_uri = orUndefined (trim (rightsUri s)),
                    location_uri = orUndefined (trim (locationUri s))\<rparr>))"

fun join :: "string list \<Rightarrow> string" where
  \<comment> \<open>\<open>path.join(".")\<close>\<close>
  "join [] = []"
| "join [x] = x"
| "join (x # y # zs) = x @ ''.'' @ join (y # zs)"

definition setFieldError ::
  "string \<Rightarrow> string \<Rightarrow> (string \<rightharpoonup> string list) \<Rightarrow> (string \<rightharpoonup> string list)" where
  "setFieldError p msg prev = prev(p \<mapsto> uniq (orElse (prev p) [] @ [msg]))"

definition issue_key :: "issue \<Rightarrow> string" where
  \<comment> \<open>\<open>issue.path.join(".") || "form"\<close>\<close>
  "issue_key i = (if truthy (join (path i)) then join (path i) else ''form'')"

definition validateInline :: "zod \<Rightarrow> ImpactClaim \<Rightarrow> FormState \<Rightarrow> FormState \<times> bool" where
  \<comment> \<open>The state after the queued updates, and \<open>res.success\<close>.\<close>
  "validateInline z r s =
     (let issues = ImpactClaimSchema z r
      in (s\<lparr>errors := foldl (\<lambda>e i. setFieldError (issue_key i) (message i) e) Map.empty issues\<rparr>,
          issues = []))"

text \<open>
  A run of \<open>handleSubmit\<close>: the state it leaves, the records it passed to \<open>onSubmit\<close> in
  order, and how the handler's own promise settles.
\<close>

record SubmitRun =
  state :: FormState
  calls :: "ImpactClaim list"
  settled :: settle

definition handleSubmit :: "zod \<Rightarrow> Props \<Rightarrow> ImpactClaim \<Rightarrow> FormState \<Rightarrow> SubmitRun" where
  \<comment> \<open>\<open>r\<close> is the \<open>record\<close> of the render the handler belongs to.\<close>
  "handleSubmit z props r s =
     (if disabled props \<or> submitting s then \<lparr>state = s, calls = [], settled = Resolves\<rparr>
      else
        (let (s1, ok) = validateInline z r (s\<lparr>errors := Map.empty\<rparr>)
         in if \<not> ok then \<lparr>state = s1, calls = [], settled = Resolves\<rparr>
            else
              (let s2 = s1\<lparr>submitting := True\<rparr>
               in case onSubmit props of
                    None \<Rightarrow> \<lparr>state = s2\<lparr>submitting := False\<rparr>, calls = [], settled = Resolves\<rparr>
                  | Some cb \<Rightarrow>
                      (case cb r of
                         Resolves \<Rightarrow>
                           \<lparr>state = s2\<lparr>submitting := False\<rparr>, calls = [r], settled = Resolves\<rparr>
                       | Rejects \<Rightarrow>
                           \<lparr>state = s2\<lparr>submitting := False\<rparr>, calls = [r], settled = Rejects\<rparr>
                       | Pending \<Rightarrow> \<lparr>state = s2, calls = [r], settled = Pending\<rparr>))))"

definition submit :: "zod \<Rightarrow> js_env \<Rightarrow> Props \<Rightarrow> FormState \<Rightarrow> js_error + SubmitRun" where
  \<comment> \<open>Render, then submit the form.\<close>
  "submit z env props s =
     (case record_of env s of Inl e \<Rightarrow> Inl e | Inr r \<Rightarrow> Inr (handleSubmit z props r s))"

definition removeRow :: "int \<Rightarrow> string list \<Rightarrow> string list" where
  \<comment> \<open>The array handed to the setter.\<close>
  "removeRow index arr =
     (if length arr > 0
      then map snd (filter (\<lambda>(i, _). int i \<noteq> index) (enumerate 0 arr))
      else arr)"

definition fillExample :: "js_env \<Rightarrow> FormState \<Rightarrow> js_error option \<times> FormState" where
  \<comment> \<open>The state after the updates queued by the handler, and the error it threw, if any:
      \<open>toISOString\<close> throws on a date outside the representable range, and the updates
      queued before that still apply.\<close>
  "fillExample env s =
     (let start = new_Date env (getFullYear env (now env)) (getMonth env (now env))
                    (getDate env (now env) - 6) 8 (- 1) (- 1);
          end = new_Date env (getFullYear env (now env)) (getMonth env (now env))
                  (getDate env (now env) + 13) 16 (- 1) (- 1);
          s1 = s\<lparr>impactClaimId := ''claim-000-demo'',
                 workScope := ''Open-source climate modeling tools'',
                 descriptionText := ''Released v0.0 of a reproducible climate impact toolkit; documented methods and published benchmarks.'',
                 uris := [''https://github.com/example/hypercerts-climate-toolkit'',
                          ''https://example.org/report/2024-q3''],
                 contributors := [''did:plc:abcd1233efgh5678'',
                                  ''https://bsky.app/profile/alice.example.com''],
                 rightsUri := ''https://creativecommons.org/licenses/by/3.0/'',
                 locationUri := ''https://maps.google.com/?q=Thimphu,Bhutan''\<rparr>
      in case toISOString start of
           Inl e \<Rightarrow> (Some e, s1)
         | Inr si \<Rightarrow>
             (let s2 = s1\<lparr>startLocal := isoToLocalDateTime env (Some si)\<rparr>
              in case toISOString end of
                   Inl e \<Rightarrow> (Some e, s2)
                 | Inr ei \<Rightarrow>
                     (None, s2\<lparr>endLocal := isoToLocalDateTime env (Some ei),
                               errors := Map.empty\<rparr>)))"

definition resetForm :: "js_env \<Rightarrow> Props \<Rightarrow> FormState \<Rightarrow> FormState" where
  "resetForm env props s =
     s\<lparr>impactClaimId := orElse (initial_impact_claim_id (initial props)) [],
       workScope := orElse (initial_work_scope (initial props)) [],
       uris := orElse (initial_uri (initial props)) [[]],
       startLocal := isoToLocalDateTime env (initial_work_start_time (initial props)),
       endLocal := isoToLocalDateTime env (initial_work_end_time (initial props)),
       descriptionText := orElse (initial_description (initial props)) [],
       contributors := orElse (initial_contributors_uri (initial props)) [],
       rightsUri := orElse (initial_rights_uri (initial props)) [],
       locationUri := orElse (initial_location_uri (initial props)) [],
       errors := Map.empty\<rparr>"

definition slots ::
  "FormState \<Rightarrow> string \<times> string \<times> string list \<times> string \<times> string \<times> string \<times> string list \<times> string \<times> string" where
  \<comment> \<open>The nine field slots of the form.\<close>
  "slots s =
     (impactClaimId s, workScope s, uris s, startLocal s, endLocal s, descriptionText s,
      contributors s, rightsUri s, locationUri s)"

section \<open>The list page (HypercertsListPage)\<close>

text \<open>
  A listed claim is \<open>ImpactClaim & { uri: any }\<close>: the API returns \<open>uri\<close> as a string or
  as an array of strings.
\<close>

datatype uri_any = UriString string | UriArray "string list"

type_synonym ListedClaim = "uri_any ImpactClaimOf"

record Session =
  did :: string

record ListParams =
  cursor_param :: "string option"
  limit :: nat
  reverse :: bool

record ListImpactClaimsResult =
  result_items :: "ListedClaim list"
  result_cursor :: "string option"

text \<open>
  What the awaited \<open>listImpactClaims\<close> call does. The API client is not part of the
  repository: it is a parameter of the model.
\<close>

datatype list_settle = ListResolves ListImpactClaimsResult | ListRejects | ListPending

type_synonym list_api = "Session \<Rightarrow> ListParams \<Rightarrow> list_settle"

text \<open>
  The page's state slots, and the messages it has passed to \<open>toast.error\<close> so far
  (an effect, kept in the state to be observable).
\<close>

record ListPage =
  loading :: bool
  items :: "ListedClaim list"
  cursor :: "string option"
  history :: "string option list"
  query :: string
  error :: "string option"
  error_toasts :: "string list"

definition initialListPage :: ListPage where
  "initialListPage =
     \<lparr>loading = False, items = [], cursor = None, history = [], query = [], error = None,
      error_toasts = []\<rparr>"

definition fetchPage ::
  "Session option \<Rightarrow> list_api \<Rightarrow> string option \<Rightarrow> bool \<Rightarrow> ListPage \<Rightarrow> ListPage" where
  \<comment> \<open>The state once the awaited call has settled (or the state it hangs in).\<close>
  "fetchPage session api nextCursor pushHistory s =
     (case session of
        None \<Rightarrow> s
      | Some sess \<Rightarrow>
          (let s1 = s\<lparr>loading := True, error := None\<rparr>
           in case api sess \<lparr>cursor_param = nextCursor, limit = 20, reverse = True\<rparr> of
                ListResolves res \<Rightarrow>
                  (let s2 = s1\<lparr>items := result_items res, cursor := result_cursor res\<rparr>;
                       s3 = (if pushHistory then s2\<lparr>history := history s2 @ [nextCursor]\<rparr>
                             else s2)
                   in s3\<lparr>loading := False\<rparr>)
              | ListRejects \<Rightarrow>
                  (let msg = ''Failed to load hypercerts.''
                   in s1\<lparr>error := Some msg, error_toasts := error_toasts s1 @ [msg],
                         loading := False\<rparr>)
              | ListPending \<Rightarrow> s1))"

definition mount :: "Session option \<Rightarrow> list_api \<Rightarrow> bool \<Rightarrow> ListPage" where
  \<comment> \<open>The effect that runs once the session is ready: the first page.\<close>
  "mount session api isReady =
     (if isReady \<and> session \<noteq> None then fetchPage session api None True initialListPage
      else initialListPage)"

definition handleNext :: "Session option \<Rightarrow> list_api \<Rightarrow> ListPage \<Rightarrow> ListPage" where
  "handleNext session api s = fetchPage session api (cursor s) True s"

definition handleBack :: "Session option \<Rightarrow> list_api \<Rightarrow> ListPage \<Rightarrow> ListPage" where
  "handleBack session api s =
     (let h = history s
      in if length h \<le> 1 then s
         else
           (let nextHistory = butlast h;
                prevCursor = (if nextHistory = [] then None else last nextHistory)
            in fetchPage session api prevCursor False (s\<lparr>history := nextHistory\<rparr>)))"

definition nextDisabled :: "ListPage \<Rightarrow> bool" where
  \<comment> \<open>\<open>disabled={loading || !cursor}\<close> of the Next button.\<close>
  "nextDisabled s = (loading s \<or> \<not> (case cursor s of None \<Rightarrow> False | Some c \<Rightarrow> truthy c))"

definition backDisabled :: "ListPage \<Rightarrow> bool" where
  \<comment> \<open>\<open>disabled={loading || history.length <= 1}\<close> of the Back button.\<close>
  "backDisabled s = (loading s \<or> length (history s) \<le> 1)"

definition clickNext :: "Session option \<Rightarrow> list_api \<Rightarrow> ListPage \<Rightarrow> ListPage" where
  \<comment> \<open>The Next control: a disabled button does not fire its handler.\<close>
  "clickNext session api s = (if nextDisabled s then s else handleNext session api s)"

definition clickBack :: "Session option \<Rightarrow> list_api \<Rightarrow> ListPage \<Rightarrow> ListPage" where
  "clickBack session api s = (if backDisabled s then s else handleBack session api s)"

subsection \<open>Serialisation and the filter\<close>

definition hexDigit :: "nat \<Rightarrow> char" where
  "hexDigit n = (if n < 10 then char_of (48 + n) else char_of (87 + n))"

definition jsonEscape :: "char \<Rightarrow> string" where
  \<comment> \<open>\<open>JSON.stringify\<close> on one code unit of a string: the quote, the backslash and the
      control characters are escaped.\<close>
  "jsonEscape c =
     (let n = (of_char c :: nat)
      in if n = 34 then [char_of (92::nat), char_of (34::nat)]
         else if n = 92 then [char_of (92::nat), char_of (92::nat)]
         else if n = 8 then [char_of (92::nat), CHR ''b'']
         else if n = 9 then [char_of (92::nat), CHR ''t'']
         else if n = 10 then [char_of (92::nat), CHR ''n'']
         else if n = 12 then [char_of (92::nat), CHR ''f'']
         else if n = 13 then [char_of (92::nat), CHR ''r'']
         else if n < 32 then [char_of (92::nat), CHR ''u'', CHR ''0'', CHR ''0'',
                              hexDigit (n div 16), hexDigit (n mod 16)]
         else [c])"

definition jsonString :: "string \<Rightarrow> string" where
  "jsonString s = [char_of (34::nat)] @ concat (map jsonEscape s) @ [char_of (34::nat)]"

fun commaJoin :: "string list \<Rightarrow> string" where
  "commaJoin [] = []"
| "commaJoin [x] = x"
| "commaJoin (x # y # zs) = x @ '','' @ commaJoin (y # zs)"

definition jsonArray :: "string list \<Rightarrow> string" where
  "jsonArray xs = ''['' @ commaJoin (map jsonString xs) @ '']''"

definition jsonMember :: "string \<Rightarrow> string \<Rightarrow> string" where
  "jsonMember k v = jsonString k @ '':'' @ v"

definition JSON_stringify :: "ListedClaim \<Rightarrow> string" where
  \<comment> \<open>The members in the order of the type's declaration; an absent optional field is
      left out.\<close>
  "JSON_stringify it =
     ''{'' @
     commaJoin
       ([jsonMember ''impact_claim_id'' (jsonString (impact_claim_id it)),
         jsonMember ''work_scope'' (jsonString (work_scope it)),
         jsonMember ''uri''
           (case uri it of UriString u \<Rightarrow> jsonString u | UriArray us \<Rightarrow> jsonArray us),
         jsonMember ''work_start_time'' (jsonString (work_start_time it)),
         jsonMember ''work_end_time'' (jsonString (work_end_time it))] @
        (case description it of
           None \<Rightarrow> [] | Some d \<Rightarrow> [jsonMember ''description'' (jsonString d)]) @
        (case contributors_uri it of
           None \<Rightarrow> [] | Some cs \<Rightarrow> [jsonMember ''contributors_uri'' (jsonArray cs)]) @
        (case rights_uri it of
           None \<Rightarrow> [] | Some r \<Rightarrow> [jsonMember ''rights_uri'' (jsonString r)]) @
        (case location_uri it of
           None \<Rightarrow> [] | Some l \<Rightarrow> [jsonMember ''location_uri'' (jsonString l)])) @
     ''}''"

definition filtered :: "ListPage \<Rightarrow> ListedClaim list" where
  "filtered s =
     (let q = toLowerCase (trim (query s))
      in if \<not> truthy q then items s
         else filter (\<lambda>it. str_includes (toLowerCase (JSON_stringify it)) q) (items s))"

section \<open>App.tsx: the create handler\<close>

text \<open>
  A run of \<open>handleCreate\<close>: the calls it made to \<open>createImpactClaim\<close>, the messages it
  passed to \<open>toast.success\<close>, and how its own promise settles. The API client is a
  parameter of the model.
\<close>

record CreateRun =
  create_calls :: "(Session \<times> ImpactClaim) list"
  success_toasts :: "string list"
  create_settled :: settle

definition handleCreate ::
  "Session option \<Rightarrow> (Session \<Rightarrow> ImpactClaim \<Rightarrow> settle) \<Rightarrow> ImpactClaim \<Rightarrow> CreateRun" where
  "handleCreate session createImpactClaim r =
     (case session of
        None \<Rightarrow> \<lparr>create_calls = [], success_toasts = [], create_settled = Resolves\<rparr>
      | Some sess \<Rightarrow>
          (case createImpactClaim sess r of
             Resolves \<Rightarrow>
               \<lparr>create_calls = [(sess, r)], success_toasts = [''Created Impact Claim!''],
                create_settled = Resolves\<rparr>
           | Rejects \<Rightarrow>
               \<lparr>create_calls = [(sess, r)], success_toasts = [], create_settled = Rejects\<rparr>
           | Pending \<Rightarrow>
               \<lparr>create_calls = [(sess, r)], success_toasts = [], create_settled = Pending\<rparr>))"

section \<open>Example values\<close>

text \<open>
  Concrete inputs at which the properties below are evaluated: two runtimes, an absent
  \<open>initial\<close> prop, a stand-in for the validation library's two format checks, a session,
  a listed claim and an API serving three pages.
\<close>

definition utc :: js_env where
  "utc = \<lparr>tz_offset = 0, now = 1704096000123\<rparr>"

definition thimphu :: js_env where
  \<comment> \<open>A runtime in the zone UTC+06:00.\<close>
  "thimphu = \<lparr>tz_offset = 360, now = 1704096000123\<rparr>"

definition noInitial :: PartialImpactClaim where
  "noInitial =
     \<lparr>initial_impact_claim_id = None, initial_work_scope = None, initial_uri = None,
      initial_work_start_time = None, initial_work_end_time = None,
      initial_description = None, initial_contributors_uri = None,
      initial_rights_uri = None, initial_location_uri = None\<rparr>"

definition zod_stub :: zod where
  \<comment> \<open>A URL starts with \<open>https://\<close>; a date-time has the shape and length of
      \<open>toISOString\<close>'s output and ends in \<open>Z\<close>.\<close>
  "zod_stub =
     \<lparr>url_ok = (\<lambda>u. prefix ''https://'' u),
      datetime_ok = (\<lambda>d. length d = 24 \<and> Date_parse utc d \<noteq> None \<and> last d = CHR ''Z'')\<rparr>"

definition alice :: Session where
  "alice = \<lparr>did = ''did:plc:alice''\<rparr>"

definition climateItem :: ListedClaim where
  "climateItem =
     \<lparr>impact_claim_id = ''claim-7'',
      work_scope = ''Open-source climate modeling'',
      uri = UriArray [''https://example.org/report''],
      work_start_time = ''2024-01-01T08:00:00.000Z'',
      work_end_time = ''2024-02-01T08:00:00.000Z'',
      description = None,
      contributors_uri = Some [],
      rights_uri = None,
      location_uri = None\<rparr>"

definition threePages ::
  "ListedClaim list \<Rightarrow> ListedClaim list \<Rightarrow> ListedClaim list \<Rightarrow> list_api" where
  \<comment> \<open>Three pages with the cursor successions \<open>null \<rightarrow> "c1"\<close>, \<open>"c1" \<rightarrow> "c2"\<close>,
      \<open>"c2" \<rightarrow> null\<close>; any other cursor is rejected.\<close>
  "threePages p1 p2 p3 sess params =
     (case cursor_param params of
        None \<Rightarrow> ListResolves \<lparr>result_items = p1, result_cursor = Some ''c1''\<rparr>
      | Some c \<Rightarrow>
          if c = ''c1'' then ListResolves \<lparr>result_items = p2, result_cursor = Some ''c2''\<rparr>
          else if c = ''c2'' then ListResolves \<lparr>result_items = p3, result_cursor = None\<rparr>
          else ListRejects)"

definition demoProps :: Props where
  "demoProps = \<lparr>onSubmit = Some (\<lambda>_. Resolves), initial = noInitial, disabled = False\<rparr>"

definition datesOnlyForm :: FormState where
  "datesOnlyForm =
     (useState thimphu demoProps)\<lparr>startLocal := ''2024-01-01T08:00'',
                                  endLocal := ''2024-01-02T17:30''\<rparr>"

definition datesOnlyRecord :: ImpactClaim where
  "datesOnlyRecord =
     \<lparr>impact_claim_id = [], work_scope = [], uri = [],
      work_start_time = ''2024-01-01T08:00:00.000Z'',
      work_end_time = ''2024-01-02T17:30:00.000Z'',
      description = None, contributors_uri = Some [], rights_uri = None,
      location_uri = None\<rparr>"

definition demoForm :: FormState where
  "demoForm = snd (fillExample thimphu (useState thimphu demoProps))"

definition demoRecord :: ImpactClaim where
  "demoRecord =
     \<lparr>impact_claim_id = ''claim-000-demo'',
      work_scope = ''Open-source climate modeling tools'',
      uri = [''https://github.com/example/hypercerts-climate-toolkit'',
             ''https://example.org/report/2024-q3''],
      work_start_time = ''2023-12-26T07:58:00.000Z'',
      work_end_time = ''2024-01-14T15:58:00.000Z'',
      description = Some ''Released v0.0 of a reproducible climate impact toolkit; documented methods and published benchmarks.'',
      contributors_uri = Some [''did:plc:abcd1233efgh5678'',
                               ''https://bsky.app/profile/alice.example.com''],
      rights_uri = Some ''https://creativecommons.org/licenses/by/3.0/'',
      location_uri = Some ''https://maps.google.com/?q=Thimphu,Bhutan''\<rparr>"

section \<open>Properties\<close>

subsection \<open>Auxiliary facts\<close>

lemma includes_iff: "str_includes hay q \<longleftrightarrow> (\<exists>pre post. hay = pre @ q @ post)"
proof (induction hay)
  case Nil
  then show ?case by auto
next
  case (Cons h t)
  show ?case
  proof
    assume "str_includes (h # t) q"
    then consider "prefix q (h # t)" | "str_includes t q" by auto
    then show "\<exists>pre post. h # t = pre @ q @ post"
    proof cases
      case 1
      then obtain post where "h # t = q @ post" by (auto simp: prefix_def)
      then have "h # t = [] @ q @ post" by simp
      then show ?thesis by blast
    next
      case 2
      with Cons.IH obtain pre post where "t = pre @ q @ post" by blast
      then have "h # t = (h # pre) @ q @ post" by simp
      then show ?thesis by blast
    qed
  next
    assume "\<exists>pre post. h # t = pre @ q @ post"
    then obtain pre post where e: "h # t = pre @ q @ post" by blast
    show "str_includes (h # t) q"
    proof (cases pre)
      case Nil
      with e have "prefix q (h # t)" by (simp add: prefix_def)
      then show ?thesis by simp
    next
      case (Cons a pre')
      with e have "t = pre' @ q @ post" by simp
      with Cons.IH have "str_includes t q" by blast
      then show ?thesis by simp
    qed
  qed
qed

lemma trim_no_leading: "trim s \<noteq> [] \<Longrightarrow> \<not> isWhiteSpace (hd (trim s))"
proof -
  assume ne: "trim s \<noteq> []"
  define a where "a = dropWhile isWhiteSpace s"
  define b where "b = dropWhile isWhiteSpace (rev a)"
  have t: "trim s = rev b" by (simp add: trim_def a_def b_def)
  have "takeWhile isWhiteSpace (rev a) @ b = rev a"
    unfolding b_def by (rule takeWhile_dropWhile_id)
  then have "a = rev b @ rev (takeWhile isWhiteSpace (rev a))"
    by (metis rev_append rev_rev_ident)
  with ne t have ha: "hd a = hd (rev b)" and "a \<noteq> []"
    by (metis hd_append2, metis append_is_Nil_conv)
  then have "\<not> isWhiteSpace (hd a)"
    unfolding a_def by (metis hd_dropWhile)
  with ha t show ?thesis by simp
qed

lemma trim_no_trailing: "trim s \<noteq> [] \<Longrightarrow> \<not> isWhiteSpace (last (trim s))"
proof -
  assume ne: "trim s \<noteq> []"
  define b where "b = dropWhile isWhiteSpace (rev (dropWhile isWhiteSpace s))"
  have t: "trim s = rev b" by (simp add: trim_def b_def)
  with ne have "b \<noteq> []" by simp
  then have "\<not> isWhiteSpace (hd b)" unfolding b_def by (metis hd_dropWhile)
  with t \<open>b \<noteq> []\<close> show ?thesis by (simp add: last_rev)
qed

lemma trim_fixed:
  assumes "s = [] \<or> (\<not> isWhiteSpace (hd s) \<and> \<not> isWhiteSpace (last s))"
  shows "trim s = s"
proof (cases "s = []")
  case True
  then show ?thesis by (simp add: trim_def)
next
  case False
  with assms have h: "\<not> isWhiteSpace (hd s)" and l: "\<not> isWhiteSpace (last s)" by auto
  from False h have 1: "dropWhile isWhiteSpace s = s"
    by (simp add: dropWhile_eq_self_iff)
  from False l have 2: "dropWhile isWhiteSpace (rev s) = rev s"
    by (simp add: dropWhile_eq_self_iff hd_rev)
  show ?thesis by (simp add: trim_def 1 2)
qed

lemma trim_idem: "trim (trim s) = trim s"
  by (rule trim_fixed) (use trim_no_leading trim_no_trailing in blast)

lemma enumerate_filter_all:
  "(\<And>j. n \<le> j \<Longrightarrow> P j) \<Longrightarrow> map snd (filter (\<lambda>(j, _). P j) (enumerate n xs)) = xs"
  by (induction xs arbitrary: n) auto

lemma enumerate_filter_at:
  "map snd (filter (\<lambda>(j, _). j \<noteq> n + k) (enumerate n xs)) = take k xs @ drop (Suc k) xs"
proof (induction xs arbitrary: n k)
  case Nil
  show ?case by simp
next
  case (Cons x xs)
  show ?case
  proof (cases k)
    case 0
    have "map snd (filter (\<lambda>(j, _). j \<noteq> n) (enumerate (Suc n) xs)) = xs"
      by (rule enumerate_filter_all) simp
    with 0 show ?thesis by simp
  next
    case (Suc k')
    have "map snd (filter (\<lambda>(j, _). j \<noteq> Suc n + k') (enumerate (Suc n) xs))
          = take k' xs @ drop (Suc k') xs"
      by (rule Cons.IH)
    with Suc show ?thesis by simp
  qed
qed

lemma digitChar_not_ws: "d < 10 \<Longrightarrow> \<not> isWhiteSpace (digitChar d)"
  by (auto simp: isWhiteSpace_def digitChar_def)

lemma showNat_hd: "showNat n \<noteq> [] \<and> \<not> isWhiteSpace (hd (showNat n))"
proof (induction n rule: showNat.induct)
  case (1 n)
  show ?case
  proof (cases "n < 10")
    case True
    then show ?thesis by (simp add: showNat.simps [of n] digitChar_not_ws)
  next
    case False
    with 1 show ?thesis by (simp add: showNat.simps [of n])
  qed
qed

lemma String_hd: "String y \<noteq> [] \<and> \<not> isWhiteSpace (hd (String y))"
  by (simp add: String_def showNat_hd) (simp add: isWhiteSpace_def)

lemma padStart_hd:
  assumes "s \<noteq> []" "\<not> isWhiteSpace (hd s)" "\<not> isWhiteSpace c"
  shows "padStart w c s \<noteq> [] \<and> \<not> isWhiteSpace (hd (padStart w c s))"
proof (cases "w - length s")
  case 0
  with assms show ?thesis by (simp add: padStart_def)
next
  case (Suc k)
  with assms show ?thesis by (simp add: padStart_def)
qed

lemma zero_not_ws: "\<not> isWhiteSpace (CHR ''0'')"
  by (simp add: isWhiteSpace_def)

lemma isoYear_hd: "isoYear y \<noteq> [] \<and> \<not> isWhiteSpace (hd (isoYear y))"
proof (cases "0 \<le> y \<and> y \<le> 9999")
  case True
  then show ?thesis
    using padStart_hd [of "String y" "CHR ''0''" 4] String_hd [of y] zero_not_ws
    by (simp add: isoYear_def)
next
  case False
  then show ?thesis by (auto simp: isoYear_def isWhiteSpace_def)
qed

lemma toISOString_trimmed: "toISOString d = Inr x \<Longrightarrow> trim x = x"
proof -
  assume a: "toISOString d = Inr x"
  then obtain t where d: "d = Some t" by (cases d) (simp_all add: toISOString_def)
  from a d obtain rest where x: "x = isoYear (YearFromTime t) @ rest @ ''Z''"
    by (auto simp: toISOString_def)
  from isoYear_hd [of "YearFromTime t"] have h: "\<not> isWhiteSpace (hd x)" and ne: "x \<noteq> []"
    by (simp_all add: x)
  have l: "\<not> isWhiteSpace (last x)" by (simp add: x isWhiteSpace_def)
  from h l show ?thesis by (intro trim_fixed) simp
qed

lemma localDateTimeToISO_trimmed: "localDateTimeToISO env dt = Inr x \<Longrightarrow> trim x = x"
  by (auto simp: localDateTimeToISO_def trim_def dest: toISOString_trimmed
      split: if_splits option.splits)

lemma toLowerCase_append: "toLowerCase (a @ b) = toLowerCase a @ toLowerCase b"
  by (simp add: toLowerCase_def)

lemma commaJoin_second: "\<exists>t. commaJoin (x # y # zs) = x @ '','' @ y @ t"
  by (cases zs) auto

lemma JSON_has_work_scope: "\<exists>a b. JSON_stringify it = a @ jsonString (work_scope it) @ b"
proof -
  define m1 where "m1 = jsonMember ''impact_claim_id'' (jsonString (impact_claim_id it))"
  define ms where "ms =
       [jsonMember ''uri''
           (case uri it of UriString u \<Rightarrow> jsonString u | UriArray us \<Rightarrow> jsonArray us),
         jsonMember ''work_start_time'' (jsonString (work_start_time it)),
         jsonMember ''work_end_time'' (jsonString (work_end_time it))] @
        (case description it of
           None \<Rightarrow> [] | Some d \<Rightarrow> [jsonMember ''description'' (jsonString d)]) @
        (case contributors_uri it of
           None \<Rightarrow> [] | Some cs \<Rightarrow> [jsonMember ''contributors_uri'' (jsonArray cs)]) @
        (case rights_uri it of
           None \<Rightarrow> [] | Some r \<Rightarrow> [jsonMember ''rights_uri'' (jsonString r)]) @
        (case location_uri it of
           None \<Rightarrow> [] | Some l \<Rightarrow> [jsonMember ''location_uri'' (jsonString l)])"
  have j: "JSON_stringify it =
      ''{'' @ commaJoin (m1 # jsonMember ''work_scope'' (jsonString (work_scope it)) # ms) @ ''}''"
    unfolding JSON_stringify_def m1_def ms_def by simp
  obtain t where
    "commaJoin (m1 # jsonMember ''work_scope'' (jsonString (work_scope it)) # ms)
       = m1 @ '','' @ jsonMember ''work_scope'' (jsonString (work_scope it)) @ t"
    using commaJoin_second by blast
  with j have "JSON_stringify it =
      (''{'' @ m1 @ '','' @ jsonString ''work_scope'' @ '':'') @ jsonString (work_scope it)
        @ (t @ ''}'')"
    by (simp add: jsonMember_def)
  then show ?thesis by blast
qed

lemma climate_in_json:
  assumes "work_scope it = ''Open-source climate modeling''"
  shows "\<exists>pre post. toLowerCase (JSON_stringify it) = pre @ ''climate'' @ post"
proof -
  have q: "jsonString ''Open-source climate modeling''
           = (char_of (34::nat) # ''Open-source '') @ ''climate'' @ ('' modeling'' @ [char_of (34::nat)])"
    by (simp add: jsonString_def jsonEscape_def)
  have l: "toLowerCase ''climate'' = ''climate''"
    by (simp add: toLowerCase_def lowerChar_def)
  from JSON_has_work_scope obtain a b
    where "JSON_stringify it = a @ jsonString (work_scope it) @ b" by blast
  with assms q have "JSON_stringify it
      = (a @ char_of (34::nat) # ''Open-source '') @ ''climate'' @ ('' modeling'' @ [char_of (34::nat)] @ b)"
    by simp
  then have "toLowerCase (JSON_stringify it)
      = toLowerCase (a @ char_of (34::nat) # ''Open-source '') @ ''climate''
          @ toLowerCase ('' modeling'' @ [char_of (34::nat)] @ b)"
    by (simp only: toLowerCase_append l)
  then show ?thesis by blast
qed

lemma datesOnly_record: "record_of thimphu datesOnlyForm = Inr datesOnlyRecord"
  by code_simp

lemma demo_record: "record_of thimphu demoForm = Inr demoRecord"
  by code_simp

lemma demo_valid: "ImpactClaimSchema zod_stub demoRecord = []"
  by code_simp

lemma demo_start: "startLocal demoForm = ''2023-12-26T07:58''"
  by code_simp

lemma record_of_fields:
  assumes "record_of env s = Inr r"
  shows "impact_claim_id r = trim (impactClaimId s)"
    and "work_scope r = trim (workScope s)"
    and "uri r = filter truthy (map trim (uris s))"
    and "localDateTimeToISO env (startLocal s) = Inr (work_start_time r)"
    and "localDateTimeToISO env (endLocal s) = Inr (work_end_time r)"
    and "description r = orUndefined (trim (descriptionText s))"
    and "contributors_uri r = Some (filter truthy (map trim (contributors s)))"
    and "rights_uri r = orUndefined (trim (rightsUri s))"
    and "location_uri r = orUndefined (trim (locationUri s))"
  using assms by (auto simp: record_of_def split: sum.splits)

lemma fold_errors_other_key:
  "k \<notin> issue_key ` set is \<Longrightarrow>
   foldl (\<lambda>e i. setFieldError (issue_key i) (message i) e) m is k = m k"
  by (induction "is" arbitrary: m) (auto simp: setFieldError_def)

lemma early_issue_keys:
  assumes "i \<in> set (z_max 255 msg [''impact_claim_id''] x @
            concat (map (\<lambda>(n, u). uriSchema z [''uri'', String (int n)] u) (enumerate 0 us)))"
  shows "issue_key i = ''impact_claim_id'' \<or> (\<exists>t. issue_key i = ''uri.'' @ t)"
  using assms
  by (auto simp: z_max_def uriSchema_def z_check_def issue_key_def truthy_def
      split: if_splits)

subsection \<open>The claims\<close>

text \<open>
  C1 fails on the code for \<open>work_scope\<close> and \<open>uri\<close>. Their schema checks are
  \<open>.min(0, "Required")\<close> and \<open>.min(0, "At least one URI is required")\<close>, which no
  value fails. On a fresh form where only the two dates are filled in, the record has an
  empty \<open>work_scope\<close> and an empty \<open>uri\<close> sequence, and still \<open>handleSubmit\<close> hands it
  to \<open>onSubmit\<close> and leaves the error mapping empty, for every validation library that
  accepts the two ISO strings.
\<close>

theorem submit_empty_required:
  assumes "datetime_ok z ''2024-01-01T08:00:00.000Z''"
    and "datetime_ok z ''2024-01-02T17:30:00.000Z''"
  shows "trim (workScope datesOnlyForm) = [] \<and>
         filter truthy (map trim (uris datesOnlyForm)) = [] \<and>
         submit z thimphu demoProps datesOnlyForm =
           Inr (handleSubmit z demoProps datesOnlyRecord datesOnlyForm) \<and>
         work_scope datesOnlyRecord = [] \<and> uri datesOnlyRecord = [] \<and>
         calls (handleSubmit z demoProps datesOnlyRecord datesOnlyForm) = [datesOnlyRecord] \<and>
         errors (state (handleSubmit z demoProps datesOnlyRecord datesOnlyForm)) = Map.empty"
proof -
  have i: "ImpactClaimSchema z datesOnlyRecord = []"
    using assms
    by (simp add: ImpactClaimSchema_def datesOnlyRecord_def z_min_def z_max_def dateSchema_def
        z_check_def)
  have g: "\<not> disabled demoProps" "\<not> submitting datesOnlyForm"
    "onSubmit demoProps = Some (\<lambda>_. Resolves)"
    by (simp_all add: demoProps_def datesOnlyForm_def useState_def)
  from i g have "calls (handleSubmit z demoProps datesOnlyRecord datesOnlyForm) = [datesOnlyRecord]"
    and "errors (state (handleSubmit z demoProps datesOnlyRecord datesOnlyForm)) = Map.empty"
    by (simp_all add: handleSubmit_def validateInline_def)
  moreover have "trim (workScope datesOnlyForm) = []"
    and "filter truthy (map trim (uris datesOnlyForm)) = []"
    by (simp_all add: datesOnlyForm_def useState_def demoProps_def noInitial_def orElse_def
        trim_def truthy_def)
  ultimately show ?thesis
    by (simp add: submit_def datesOnly_record) (simp add: datesOnlyRecord_def)
qed

theorem submit_empty_required_witness:
  "trim (workScope datesOnlyForm) = [] \<and>
   filter truthy (map trim (uris datesOnlyForm)) = [] \<and>
   submit zod_stub thimphu demoProps datesOnlyForm =
     Inr (handleSubmit zod_stub demoProps datesOnlyRecord datesOnlyForm) \<and>
   work_scope datesOnlyRecord = [] \<and> uri datesOnlyRecord = [] \<and>
   calls (handleSubmit zod_stub demoProps datesOnlyRecord datesOnlyForm) = [datesOnlyRecord] \<and>
   errors (state (handleSubmit zod_stub demoProps datesOnlyRecord datesOnlyForm)) = Map.empty"
proof -
  have 1: "datetime_ok zod_stub ''2024-01-01T08:00:00.000Z''" by code_simp
  have 2: "datetime_ok zod_stub ''2024-01-02T17:30:00.000Z''" by code_simp
  from submit_empty_required [OF 1 2] show ?thesis .
qed

text \<open>
  The two date checks do fire: when the record's start or end time is not an ISO
  date-time for the library, \<open>handleSubmit\<close> does not call \<open>onSubmit\<close> and leaves the
  message under the key of that field.
\<close>

lemma submit_rejects_bad_date:
  assumes "\<not> disabled props" and "\<not> submitting s"
  shows "(\<not> datetime_ok z (work_start_time r) \<longrightarrow>
            calls (handleSubmit z props r s) = [] \<and>
            errors (state (handleSubmit z props r s)) ''work_start_time''
              = Some [''Must be an ISO date-time (RFC3338)'']) \<and>
         (\<not> datetime_ok z (work_end_time r) \<longrightarrow>
            calls (handleSubmit z props r s) = [] \<and>
            errors (state (handleSubmit z props r s)) ''work_end_time''
              = Some [''Must be an ISO date-time (RFC3338)''])"
proof -
  let ?f = "\<lambda>e i. setFieldError (issue_key i) (message i) e"
  let ?msg = "''Must be an ISO date-time (RFC3338)''"
  define A where "A = z_max 255 ''String must contain at most 255 character(s)''
      [''impact_claim_id''] (impact_claim_id r) @
     concat (map (\<lambda>(n, u). uriSchema z [''uri'', String (int n)] u) (enumerate 0 (uri r)))"
  define S where "S = dateSchema z [''work_start_time''] (work_start_time r)"
  define E where "E = dateSchema z [''work_end_time''] (work_end_time r)"
  have iss: "ImpactClaimSchema z r = A @ S @ E"
    by (simp add: ImpactClaimSchema_def A_def S_def E_def z_min_def)
  have run: "handleSubmit z props r s =
      \<lparr>state = s\<lparr>errors := foldl ?f Map.empty (A @ S @ E)\<rparr>, calls = [], settled = Resolves\<rparr>"
    if "A @ S @ E \<noteq> []"
    using assms that by (simp add: handleSubmit_def validateInline_def iss)
  have kA: "''work_start_time'' \<notin> issue_key ` set A" "''work_end_time'' \<notin> issue_key ` set A"
    using early_issue_keys unfolding A_def by fastforce+
  have kS: "''work_end_time'' \<notin> issue_key ` set S"
    by (auto simp: S_def dateSchema_def z_check_def issue_key_def truthy_def)
  have kE: "''work_start_time'' \<notin> issue_key ` set E"
    by (auto simp: E_def dateSchema_def z_check_def issue_key_def truthy_def)
  have start: "foldl ?f Map.empty (A @ S @ E) ''work_start_time'' = Some [?msg]"
    if "\<not> datetime_ok z (work_start_time r)"
  proof -
    from that have S1: "S = [\<lparr>path = [''work_start_time''], message = ?msg\<rparr>]"
      by (simp add: S_def dateSchema_def z_check_def)
    have "foldl ?f Map.empty (A @ S @ E) ''work_start_time''
          = foldl ?f Map.empty (A @ S) ''work_start_time''"
      using fold_errors_other_key [OF kE] by simp
    also have "\<dots> = Some [?msg]"
      using fold_errors_other_key [OF kA(1), of Map.empty]
      by (simp add: S1 setFieldError_def issue_key_def truthy_def orElse_def uniq_def)
    finally show ?thesis .
  qed
  have "end": "foldl ?f Map.empty (A @ S @ E) ''work_end_time'' = Some [?msg]"
    if "\<not> datetime_ok z (work_end_time r)"
  proof -
    from that have E1: "E = [\<lparr>path = [''work_end_time''], message = ?msg\<rparr>]"
      by (simp add: E_def dateSchema_def z_check_def)
    have "''work_end_time'' \<notin> issue_key ` set (A @ S)" using kA(2) kS by auto
    from fold_errors_other_key [OF this, of Map.empty]
    show ?thesis
      by (simp add: E1 setFieldError_def issue_key_def truthy_def orElse_def uniq_def)
  qed
  have neS: "A @ S @ E \<noteq> []" if "\<not> datetime_ok z (work_start_time r)"
    using that by (simp add: S_def dateSchema_def z_check_def)
  have neE: "A @ S @ E \<noteq> []" if "\<not> datetime_ok z (work_end_time r)"
    using that by (simp add: E_def dateSchema_def z_check_def)
  show ?thesis
  proof (intro conjI impI)
    assume a: "\<not> datetime_ok z (work_start_time r)"
    from run [OF neS [OF a]] show "calls (handleSubmit z props r s) = []" by simp
    from run [OF neS [OF a]] start [OF a]
    show "errors (state (handleSubmit z props r s)) ''work_start_time'' = Some [?msg]" by simp
  next
    assume a: "\<not> datetime_ok z (work_end_time r)"
    from run [OF neE [OF a]] show "calls (handleSubmit z props r s) = []" by simp
    from run [OF neE [OF a]] "end" [OF a]
    show "errors (state (handleSubmit z props r s)) ''work_end_time'' = Some [?msg]" by simp
  qed
qed

text \<open>
  C2, as the claim states it, fails at the two date fields: at the demo form the record
  passes the schema and is handed to \<open>onSubmit\<close>, and its \<open>work_start_time\<close> is the ISO
  conversion \<open>2023-12-26T07:58:00.000Z\<close>, not the trimmed input \<open>2023-12-26T07:58\<close>.
\<close>

theorem submit_valid_counterexample:
  "record_of thimphu demoForm = Inr demoRecord \<and>
   ImpactClaimSchema zod_stub demoRecord = [] \<and>
   calls (handleSubmit zod_stub demoProps demoRecord demoForm) = [demoRecord] \<and>
   startLocal demoForm = ''2023-12-26T07:58'' \<and>
   work_start_time demoRecord \<noteq> trim (startLocal demoForm)"
proof -
  have c: "calls (handleSubmit zod_stub demoProps demoRecord demoForm) = [demoRecord]"
    using demo_valid
    by (simp add: handleSubmit_def validateInline_def Let_def demoProps_def demoForm_def
        useState_def fillExample_def split: sum.split)
  have t: "trim ''2023-12-26T07:58'' = ''2023-12-26T07:58''" by code_simp
  have w: "work_start_time demoRecord = ''2023-12-26T07:58:00.000Z''"
    by (simp add: demoRecord_def)
  from demo_record demo_valid c demo_start t w show ?thesis by simp
qed

text \<open>
  C2, as the code has it. When the record of the render passes the schema and the form
  is neither disabled nor submitting, \<open>handleSubmit\<close> calls \<open>onSubmit\<close> exactly once,
  with that record. Its text fields are the trimmed inputs (an optional one is unset when
  its trimmed input is empty), its two date fields are the ISO conversions of the local
  inputs, every string field is free of surrounding white space, and its \<open>uri\<close> and
  \<open>contributors_uri\<close> sequences hold trimmed, non-empty strings only.
\<close>

theorem submit_valid:
  assumes "record_of env s = Inr r"
    and "ImpactClaimSchema z r = []"
    and "\<not> disabled props" and "\<not> submitting s"
    and "onSubmit props = Some cb"
  shows "calls (handleSubmit z props r s) = [r] \<and>
     impact_claim_id r = trim (impactClaimId s) \<and>
     work_scope r = trim (workScope s) \<and>
     description r = orUndefined (trim (descriptionText s)) \<and>
     rights_uri r = orUndefined (trim (rightsUri s)) \<and>
     location_uri r = orUndefined (trim (locationUri s)) \<and>
     localDateTimeToISO env (startLocal s) = Inr (work_start_time r) \<and>
     localDateTimeToISO env (endLocal s) = Inr (work_end_time r) \<and>
     uri r = filter truthy (map trim (uris s)) \<and>
     contributors_uri r = Some (filter truthy (map trim (contributors s))) \<and>
     [] \<notin> set (uri r) \<and>
     [] \<notin> set (filter truthy (map trim (contributors s))) \<and>
     list_all (\<lambda>u. trim u = u) (uri r) \<and>
     list_all (\<lambda>c. trim c = c) (filter truthy (map trim (contributors s))) \<and>
     trim (impact_claim_id r) = impact_claim_id r \<and>
     trim (work_scope r) = work_scope r \<and>
     trim (work_start_time r) = work_start_time r \<and>
     trim (work_end_time r) = work_end_time r"
proof -
  have c: "calls (handleSubmit z props r s) = [r]"
    using assms(2-5)
    by (simp add: handleSubmit_def validateInline_def Let_def split: settle.split)
  have ne: "[] \<notin> set (filter truthy (map trim xs))" for xs
    by (simp add: truthy_def)
  have tr: "list_all (\<lambda>u. trim u = u) (filter truthy (map trim xs))" for xs
    by (auto simp: list_all_iff trim_idem)
  note f = record_of_fields [OF assms(1)]
  have d: "trim (work_start_time r) = work_start_time r"
    "trim (work_end_time r) = work_end_time r"
    using f(4,5) by (auto dest: localDateTimeToISO_trimmed)
  from c ne tr f d show ?thesis
    by (simp add: trim_idem)
qed

theorem submit_valid_witness:
  "calls (handleSubmit zod_stub demoProps demoRecord demoForm) = [demoRecord] \<and>
   work_scope demoRecord = trim (workScope demoForm) \<and>
   [] \<notin> set (uri demoRecord) \<and>
   trim (work_start_time demoRecord) = work_start_time demoRecord"
proof -
  have g: "\<not> disabled demoProps" "onSubmit demoProps = Some (\<lambda>_. Resolves)"
    by (simp_all add: demoProps_def)
  have n: "\<not> submitting demoForm"
    by (simp add: demoForm_def demoProps_def useState_def fillExample_def Let_def
        split: sum.split)
  from submit_valid [OF demo_record demo_valid g(1) n g(2)] show ?thesis by blast
qed

text \<open>
  C3 fails on the code. \<open>localDateTimeToISO\<close> reads the local components of the parsed
  date and labels them as UTC, so the ISO string carries the local wall-clock digits;
  \<open>isoToLocalDateTime\<close> converts an ISO instant to local time. Their composition
  therefore moves a date-time by the zone's offset: in a runtime at UTC+06:00 the local
  string \<open>2024-01-01T08:00\<close>, with zero seconds and milliseconds, comes back as
  \<open>2024-01-01T14:00\<close>.
\<close>

theorem roundtrip_shifts_by_zone:
  "localDateTimeToISO thimphu ''2024-01-01T08:00'' = Inr ''2024-01-01T08:00:00.000Z'' \<and>
   isoToLocalDateTime thimphu (Some ''2024-01-01T08:00:00.000Z'') = ''2024-01-01T14:00''"
  by code_simp

text \<open>In a runtime at UTC the same string comes back unchanged.\<close>

lemma roundtrip_utc:
  "localDateTimeToISO utc ''2024-01-01T08:00'' = Inr ''2024-01-01T08:00:00.000Z'' \<and>
   isoToLocalDateTime utc (Some ''2024-01-01T08:00:00.000Z'') = ''2024-01-01T08:00''"
  by code_simp

text \<open>
  Even at UTC two ranges of years do not come back: \<open>Date.UTC\<close> reads the years
  \<open>0..99\<close> as \<open>1900..1999\<close>, and \<open>isoToLocalDateTime\<close> prints the year without
  padding it to four digits.
\<close>

lemma roundtrip_early_years:
  "localDateTimeToISO utc ''0050-01-01T08:00'' = Inr ''1950-01-01T08:00:00.000Z'' \<and>
   isoToLocalDateTime utc (Some ''1950-01-01T08:00:00.000Z'') = ''1950-01-01T08:00'' \<and>
   localDateTimeToISO utc ''0500-01-01T08:00'' = Inr ''0500-01-01T08:00:00.000Z'' \<and>
   isoToLocalDateTime utc (Some ''0500-01-01T08:00:00.000Z'') = ''500-01-01T08:00''"
  by code_simp

text \<open>
  C4. When the listing call rejects, \<open>fetchPage\<close> leaves \<open>items\<close> as they were, sets
  the non-empty message \<open>Failed to load hypercerts.\<close> and clears \<open>loading\<close>; and
  \<open>loading\<close> is cleared whenever the call settles, on success as on failure.
\<close>

theorem fetchPage_rejected:
  "(api sess \<lparr>cursor_param = c, limit = 20, reverse = True\<rparr> = ListRejects \<longrightarrow>
      items (fetchPage (Some sess) api c push s) = items s \<and>
      error (fetchPage (Some sess) api c push s) = Some ''Failed to load hypercerts.'' \<and>
      error (fetchPage (Some sess) api c push s) \<noteq> Some [] \<and>
      last (error_toasts (fetchPage (Some sess) api c push s)) = ''Failed to load hypercerts.'' \<and>
      \<not> loading (fetchPage (Some sess) api c push s)) \<and>
   (api sess \<lparr>cursor_param = c, limit = 20, reverse = True\<rparr> \<noteq> ListPending \<longrightarrow>
      \<not> loading (fetchPage (Some sess) api c push s))"
  by (simp add: fetchPage_def Let_def split: list_settle.split)

theorem fetchPage_rejected_witness:
  "items (fetchPage (Some \<lparr>did = ''did:plc:alice''\<rparr>) (\<lambda>_ _. ListRejects) (Some ''c1'') True
       (initialListPage\<lparr>loading := True, cursor := Some ''c1'', history := [None]\<rparr>))
     = items (initialListPage\<lparr>loading := True, cursor := Some ''c1'', history := [None]\<rparr>) \<and>
   error (fetchPage (Some \<lparr>did = ''did:plc:alice''\<rparr>) (\<lambda>_ _. ListRejects) (Some ''c1'') True
       (initialListPage\<lparr>loading := True, cursor := Some ''c1'', history := [None]\<rparr>))
     = Some ''Failed to load hypercerts.'' \<and>
   \<not> loading (fetchPage (Some \<lparr>did = ''did:plc:alice''\<rparr>) (\<lambda>_ _. ListRejects) (Some ''c1'') True
       (initialListPage\<lparr>loading := True, cursor := Some ''c1'', history := [None]\<rparr>))"
  using fetchPage_rejected [of "\<lambda>_ _. ListRejects" "\<lparr>did = ''did:plc:alice''\<rparr>" "Some ''c1''" True
      "initialListPage\<lparr>loading := True, cursor := Some ''c1'', history := [None]\<rparr>"]
  by simp

text \<open>
  C5. The API serves three pages, \<open>null \<rightarrow> "c1"\<close>, \<open>"c1" \<rightarrow> "c2"\<close>, \<open>"c2" \<rightarrow> null\<close>, and
  the page has mounted on the first. \<open>next()\<close> and \<open>back()\<close> are the page's Next and Back
  controls: the handler behind the button's \<open>disabled\<close> condition. The walk, step by step:
  the mount shows page 1; the first Next shows page 2 and the second page 3, each pushing
  the cursor it used on the history; on page 3 the cursor is \<open>null\<close>, the Next button is
  disabled and the third Next changes nothing; the first Back pops one entry and shows
  page 2, the second shows page 1, in the very state the page mounted in; there the Back
  button is disabled and one more Back changes nothing, through the button and through the
  bare handler alike. On every step where the button is enabled the control does what
  the bare handler does.
\<close>

theorem pagination_three_pages:
  fixes p1 p2 p3 :: "ListedClaim list" and sess :: Session
  defines "api \<equiv> threePages p1 p2 p3"
  defines "s0 \<equiv> mount (Some sess) api True"
  defines "s1 \<equiv> clickNext (Some sess) api s0"
  defines "s2 \<equiv> clickNext (Some sess) api s1"
  defines "s3 \<equiv> clickNext (Some sess) api s2"
  defines "s4 \<equiv> clickBack (Some sess) api s3"
  defines "s5 \<equiv> clickBack (Some sess) api s4"
  shows "(items s0 = p1 \<and> cursor s0 = Some ''c1'' \<and> history s0 = [None]) \<and>
     (items s1 = p2 \<and> cursor s1 = Some ''c2'' \<and> history s1 = [None, Some ''c1'']) \<and>
     (items s2 = p3 \<and> cursor s2 = None \<and> history s2 = [None, Some ''c1'', Some ''c2'']) \<and>
     (nextDisabled s2 \<and> s3 = s2) \<and>
     (items s4 = p2 \<and> cursor s4 = Some ''c2'' \<and> history s4 = [None, Some ''c1'']) \<and>
     (items s5 = p1 \<and> cursor s5 = Some ''c1'' \<and> history s5 = [None] \<and> s5 = s0) \<and>
     (backDisabled s5 \<and> clickBack (Some sess) api s5 = s5 \<and>
      handleBack (Some sess) api s5 = s5) \<and>
     (handleNext (Some sess) api s0 = s1 \<and> handleNext (Some sess) api s1 = s2 \<and>
      handleBack (Some sess) api s3 = s4 \<and> handleBack (Some sess) api s4 = s5)"
proof -
  define pg :: "ListedClaim list \<Rightarrow> string option \<Rightarrow> string option list \<Rightarrow> ListPage"
    where "pg its cur hist =
      \<lparr>loading = False, items = its, cursor = cur, history = hist, query = [], error = None,
       error_toasts = []\<rparr>" for its cur hist
  note defs = pg_def api_def fetchPage_def clickNext_def clickBack_def handleNext_def
    handleBack_def nextDisabled_def backDisabled_def threePages_def truthy_def Let_def
  have m: "s0 = pg p1 (Some ''c1'') [None]"
    by (simp add: s0_def mount_def initialListPage_def defs)
  have n1: "clickNext (Some sess) api (pg p1 (Some ''c1'') [None])
            = pg p2 (Some ''c2'') [None, Some ''c1'']"
    by (simp add: defs)
  have n2: "clickNext (Some sess) api (pg p2 (Some ''c2'') [None, Some ''c1''])
            = pg p3 None [None, Some ''c1'', Some ''c2'']"
    by (simp add: defs)
  have n3: "clickNext (Some sess) api (pg p3 None [None, Some ''c1'', Some ''c2''])
            = pg p3 None [None, Some ''c1'', Some ''c2'']"
    by (simp add: defs)
  have d3: "nextDisabled (pg p3 None [None, Some ''c1'', Some ''c2''])"
    by (simp add: defs)
  have b1: "clickBack (Some sess) api (pg p3 None [None, Some ''c1'', Some ''c2''])
            = pg p2 (Some ''c2'') [None, Some ''c1'']"
    by (simp add: defs)
  have b2: "clickBack (Some sess) api (pg p2 (Some ''c2'') [None, Some ''c1''])
            = pg p1 (Some ''c1'') [None]"
    by (simp add: defs)
  have b3: "clickBack (Some sess) api (pg p1 (Some ''c1'') [None]) = pg p1 (Some ''c1'') [None]"
    by (simp add: defs)
  have d5: "backDisabled (pg p1 (Some ''c1'') [None])"
    by (simp add: defs)
  have b4: "handleBack (Some sess) api (pg p1 (Some ''c1'') [None]) = pg p1 (Some ''c1'') [None]"
    by (simp add: defs)
  have h1: "handleNext (Some sess) api (pg p1 (Some ''c1'') [None])
            = pg p2 (Some ''c2'') [None, Some ''c1'']"
    by (simp add: defs)
  have h2: "handleNext (Some sess) api (pg p2 (Some ''c2'') [None, Some ''c1''])
            = pg p3 None [None, Some ''c1'', Some ''c2'']"
    by (simp add: defs)
  have h3: "handleBack (Some sess) api (pg p3 None [None, Some ''c1'', Some ''c2''])
            = pg p2 (Some ''c2'') [None, Some ''c1'']"
    by (simp add: defs)
  have h4: "handleBack (Some sess) api (pg p2 (Some ''c2'') [None, Some ''c1''])
            = pg p1 (Some ''c1'') [None]"
    by (simp add: defs)
  have s1: "s1 = pg p2 (Some ''c2'') [None, Some ''c1'']"
    unfolding s1_def m n1 ..
  have s2: "s2 = pg p3 None [None, Some ''c1'', Some ''c2'']"
    unfolding s2_def s1 n2 ..
  have s3: "s3 = pg p3 None [None, Some ''c1'', Some ''c2'']"
    unfolding s3_def s2 n3 ..
  have s4: "s4 = pg p2 (Some ''c2'') [None, Some ''c1'']"
    unfolding s4_def s3 b1 ..
  have s5: "s5 = pg p1 (Some ''c1'') [None]"
    unfolding s5_def s4 b2 ..
  have f: "items (pg its cur hist) = its" "cursor (pg its cur hist) = cur"
    "history (pg its cur hist) = hist" for its cur hist
    by (simp_all add: pg_def)
  show ?thesis
    unfolding m s1 s2 s3 s4 s5 f b3 b4 h1 h2 h3 h4
    using d3 d5 by simp
qed

text \<open>
  The bare handler has no such guard: \<open>handleNext\<close> on the last page, where the cursor is
  \<open>null\<close>, fetches the first page again and pushes \<open>null\<close> on the history, so that two
  \<open>handleBack\<close> after three \<open>handleNext\<close> arrive at the second page.
\<close>

lemma handleNext_past_last_page:
  fixes p1 p2 p3 :: "ListedClaim list" and sess :: Session
  defines "api \<equiv> threePages p1 p2 p3"
  shows "items (handleBack (Some sess) api (handleBack (Some sess) api
           (handleNext (Some sess) api (handleNext (Some sess) api (handleNext (Some sess) api
             (mount (Some sess) api True)))))) = p2"
proof -
  define pg :: "ListedClaim list \<Rightarrow> string option \<Rightarrow> string option list \<Rightarrow> ListPage"
    where "pg its cur hist =
      \<lparr>loading = False, items = its, cursor = cur, history = hist, query = [], error = None,
       error_toasts = []\<rparr>" for its cur hist
  note defs = pg_def api_def fetchPage_def handleNext_def handleBack_def threePages_def Let_def
  have m: "mount (Some sess) api True = pg p1 (Some ''c1'') [None]"
    by (simp add: mount_def initialListPage_def defs)
  have n1: "handleNext (Some sess) api (pg p1 (Some ''c1'') [None])
            = pg p2 (Some ''c2'') [None, Some ''c1'']"
    by (simp add: defs)
  have n2: "handleNext (Some sess) api (pg p2 (Some ''c2'') [None, Some ''c1''])
            = pg p3 None [None, Some ''c1'', Some ''c2'']"
    by (simp add: defs)
  have n3: "handleNext (Some sess) api (pg p3 None [None, Some ''c1'', Some ''c2''])
            = pg p1 (Some ''c1'') [None, Some ''c1'', Some ''c2'', None]"
    by (simp add: defs)
  have b1: "handleBack (Some sess) api (pg p1 (Some ''c1'') [None, Some ''c1'', Some ''c2'', None])
            = pg p3 None [None, Some ''c1'', Some ''c2'']"
    by (simp add: defs)
  have b2: "handleBack (Some sess) api (pg p3 None [None, Some ''c1'', Some ''c2''])
            = pg p2 (Some ''c2'') [None, Some ''c1'']"
    by (simp add: defs)
  show ?thesis unfolding m n1 n2 n3 b1 b2 by (simp add: pg_def)
qed

text \<open>
  C6. \<open>handleSubmit\<close> changes nothing and calls nothing while the form is disabled or
  submitting. When the record passes the schema and \<open>onSubmit\<close> is called and settles,
  resolving or rejecting, \<open>submitting\<close> is cleared afterwards.
\<close>

theorem handleSubmit_guard:
  "(disabled props \<or> submitting s \<longrightarrow>
      handleSubmit z props r s = \<lparr>state = s, calls = [], settled = Resolves\<rparr>) \<and>
   (\<not> disabled props \<and> \<not> submitting s \<and> ImpactClaimSchema z r = [] \<and>
    onSubmit props = Some cb \<and> cb r \<noteq> Pending \<longrightarrow>
      calls (handleSubmit z props r s) = [r] \<and>
      \<not> submitting (state (handleSubmit z props r s)))"
  by (simp add: handleSubmit_def validateInline_def Let_def split: settle.split)

theorem handleSubmit_guard_witness:
  "handleSubmit zod_stub (demoProps\<lparr>disabled := True\<rparr>) demoRecord demoForm
     = \<lparr>state = demoForm, calls = [], settled = Resolves\<rparr> \<and>
   calls (handleSubmit zod_stub (demoProps\<lparr>onSubmit := Some (\<lambda>_. Rejects)\<rparr>) demoRecord demoForm)
     = [demoRecord] \<and>
   \<not> submitting (state
       (handleSubmit zod_stub (demoProps\<lparr>onSubmit := Some (\<lambda>_. Rejects)\<rparr>) demoRecord demoForm))"
proof -
  have n: "\<not> submitting demoForm"
    by (simp add: demoForm_def demoProps_def useState_def fillExample_def Let_def
        split: sum.split)
  from handleSubmit_guard [of "demoProps\<lparr>disabled := True\<rparr>" demoForm zod_stub demoRecord]
  have 1: "handleSubmit zod_stub (demoProps\<lparr>disabled := True\<rparr>) demoRecord demoForm
     = \<lparr>state = demoForm, calls = [], settled = Resolves\<rparr>"
    by simp
  from handleSubmit_guard [of "demoProps\<lparr>onSubmit := Some (\<lambda>_. Rejects)\<rparr>" demoForm zod_stub
      demoRecord "\<lambda>_. Rejects"] n demo_valid
  have 2: "calls (handleSubmit zod_stub (demoProps\<lparr>onSubmit := Some (\<lambda>_. Rejects)\<rparr>) demoRecord demoForm)
     = [demoRecord] \<and>
   \<not> submitting (state
       (handleSubmit zod_stub (demoProps\<lparr>onSubmit := Some (\<lambda>_. Rejects)\<rparr>) demoRecord demoForm))"
    by (simp add: demoProps_def)
  from 1 2 show ?thesis by simp
qed

text \<open>
  C7, as the claim states it, fails: \<open>resetForm\<close> writes the initial values, not the
  values held before \<open>fillExample\<close>. On a form whose \<open>workScope\<close> slot was edited to
  \<open>Mangrove restoration\<close>, the slot is empty after the two calls.
\<close>

theorem reset_after_fill_counterexample:
  "\<not> (\<forall>env props s. slots (resetForm env props (snd (fillExample env s))) = slots s)"
proof
  assume a: "\<forall>env props s. slots (resetForm env props (snd (fillExample env s))) = slots s"
  let ?s = "(useState thimphu demoProps)\<lparr>workScope := ''Mangrove restoration''\<rparr>"
  from a have "slots (resetForm thimphu demoProps (snd (fillExample thimphu ?s))) = slots ?s"
    by blast
  then have "workScope (resetForm thimphu demoProps (snd (fillExample thimphu ?s))) = workScope ?s"
    by (simp add: slots_def)
  then show False
    by (simp add: resetForm_def demoProps_def noInitial_def orElse_def)
qed

text \<open>
  C7, as the code has it. \<open>fillExample()\<close> followed by \<open>resetForm()\<close> sets every field
  slot to its value at construction (from \<open>initial\<close>, or the empty default), clears the
  errors and leaves \<open>submitting\<close> alone. So the values held before \<open>fillExample()\<close>
  come back exactly when they were the values at construction.
\<close>

theorem reset_after_fill:
  "slots (resetForm env props (snd (fillExample env s))) = slots (useState env props) \<and>
   errors (resetForm env props (snd (fillExample env s))) = Map.empty \<and>
   submitting (resetForm env props (snd (fillExample env s))) = submitting s \<and>
   (slots (resetForm env props (snd (fillExample env s))) = slots s
      \<longleftrightarrow> slots s = slots (useState env props))"
proof -
  have 1: "slots (resetForm env props x) = slots (useState env props)" for x
    by (simp add: slots_def resetForm_def useState_def)
  have 2: "errors (resetForm env props x) = Map.empty" for x
    by (simp add: resetForm_def)
  have 3: "submitting (snd (fillExample env s)) = submitting s"
    by (simp add: fillExample_def Let_def split: sum.split)
  have 4: "submitting (resetForm env props x) = submitting x" for x
    by (simp add: resetForm_def)
  from 1 2 3 4 show ?thesis by auto
qed

text \<open>
  C8, as the claim states it, fails for a query with surrounding white space: the filter
  matches the trimmed query. The query \<open>modeling\<close> followed by a space keeps the item,
  whose serialised form does not contain that query (there the word is followed by a
  quote).
\<close>

theorem filtered_untrimmed_counterexample:
  "filtered (initialListPage\<lparr>items := [climateItem], query := ''modeling ''\<rparr>) = [climateItem] \<and>
   \<not> str_includes (toLowerCase (JSON_stringify climateItem)) (toLowerCase ''modeling '')"
  by code_simp

text \<open>
  C8, as the code has it. The filter is a function of the page's items and the query
  alone. It keeps, in order, exactly the items whose serialised form, in lower case,
  contains the trimmed query, in lower case; a query that trims to nothing yields the
  items unfiltered. Every item with the \<open>work_scope\<close> \<open>Open-source climate modeling\<close> is
  kept by the query \<open>climate\<close>, and the example item is dropped by \<open>zzz\<close>.
\<close>

theorem filtered_spec:
  "filtered s =
     (if toLowerCase (trim (query s)) = [] then items s
      else filter (\<lambda>it. \<exists>pre post.
                     toLowerCase (JSON_stringify it) = pre @ toLowerCase (trim (query s)) @ post)
             (items s)) \<and>
   (items s = items s' \<and> query s = query s' \<longrightarrow> filtered s = filtered s') \<and>
   (work_scope it = ''Open-source climate modeling'' \<longrightarrow>
      filtered (s\<lparr>items := [it], query := ''climate''\<rparr>) = [it]) \<and>
   filtered (s\<lparr>items := [climateItem], query := ''zzz''\<rparr>) = []"
proof -
  have 1: "filtered s =
     (if toLowerCase (trim (query s)) = [] then items s
      else filter (\<lambda>it. \<exists>pre post.
                     toLowerCase (JSON_stringify it) = pre @ toLowerCase (trim (query s)) @ post)
             (items s))"
    by (simp add: filtered_def Let_def truthy_def includes_iff)
  have 2: "filtered s = filtered s'" if "items s = items s'" "query s = query s'"
    using that by (simp add: filtered_def Let_def)
  have c: "toLowerCase (trim ''climate'') = ''climate''" by code_simp
  have 3: "filtered (s\<lparr>items := [it], query := ''climate''\<rparr>) = [it]"
    if "work_scope it = ''Open-source climate modeling''"
    using climate_in_json [OF that]
    by (simp add: filtered_def Let_def truthy_def includes_iff c)
  have z: "toLowerCase (trim ''zzz'') = ''zzz''" by code_simp
  have n: "\<not> str_includes (toLowerCase (JSON_stringify climateItem)) ''zzz''" by code_simp
  have 4: "filtered (s\<lparr>items := [climateItem], query := ''zzz''\<rparr>) = []"
    by (simp add: filtered_def Let_def truthy_def z n)
  from 1 2 3 4 show ?thesis by blast
qed

theorem filtered_spec_witness:
  "filtered (initialListPage\<lparr>items := [climateItem], query := ''climate''\<rparr>) = [climateItem] \<and>
   filtered (initialListPage\<lparr>items := [climateItem], query := ''zzz''\<rparr>) = [] \<and>
   filtered (initialListPage\<lparr>items := [climateItem], query := ''  ''\<rparr>) = [climateItem]"
proof -
  have w: "work_scope climateItem = ''Open-source climate modeling''"
    by (simp add: climateItem_def)
  have e: "toLowerCase (trim ''  '') = []" by code_simp
  from filtered_spec [of "initialListPage\<lparr>items := [climateItem], query := ''  ''\<rparr>"]
  have "filtered (initialListPage\<lparr>items := [climateItem], query := ''  ''\<rparr>) = [climateItem]"
    by (simp add: e)
  with filtered_spec [of initialListPage initialListPage climateItem] w
  show ?thesis by simp
qed

text \<open>
  C9. Without a session, \<open>handleCreate\<close> returns without calling \<open>createImpactClaim\<close>
  and without a success notification, whatever the record.
\<close>

theorem handleCreate_no_session:
  "handleCreate None createImpactClaim r =
     \<lparr>create_calls = [], success_toasts = [], create_settled = Resolves\<rparr>"
  by (simp add: handleCreate_def)

text \<open>
  C10. \<open>removeRow\<close> never fails, whatever the index. At an index of the array,
  \<open>0 \<le> i < length arr\<close>, the result is the array without the element at \<open>i\<close>, the others
  in their order; at an index at or beyond the length, and at a negative one, the result
  is the array itself.
\<close>

theorem removeRow_total:
  "(0 \<le> i \<and> i < int (length arr) \<longrightarrow>
      removeRow i arr = take (nat i) arr @ drop (Suc (nat i)) arr
      \<and> length (removeRow i arr) = length arr - 1) \<and>
   (int (length arr) \<le> i \<longrightarrow> removeRow i arr = arr) \<and>
   (i < 0 \<longrightarrow> removeRow i arr = arr)"
proof -
  have at: "removeRow (int k) arr = take k arr @ drop (Suc k) arr" for k
  proof -
    have "map snd (filter (\<lambda>(j, _). j \<noteq> 0 + k) (enumerate 0 arr))
          = take k arr @ drop (Suc k) arr"
      by (rule enumerate_filter_at)
    then show ?thesis by (simp add: removeRow_def)
  qed
  have neg: "removeRow i arr = arr" if "i < 0"
  proof -
    have "map snd (filter (\<lambda>(j, _). int j \<noteq> i) (enumerate 0 arr)) = arr"
      by (rule enumerate_filter_all) (use that in simp)
    then show ?thesis by (simp add: removeRow_def)
  qed
  have inside: "removeRow i arr = take (nat i) arr @ drop (Suc (nat i)) arr" if "0 \<le> i"
    using at [of "nat i"] that by simp
  have beyond: "removeRow i arr = arr" if "int (length arr) \<le> i"
  proof -
    from that have "0 \<le> i" and "length arr \<le> nat i" by simp_all
    with inside show ?thesis by simp
  qed
  from inside beyond neg show ?thesis by auto
qed

theorem removeRow_total_witness:
  "removeRow 1 [''a'', ''b'', ''c''] = [''a'', ''c''] \<and>
   removeRow 3 [''a'', ''b'', ''c''] = [''a'', ''b'', ''c''] \<and>
   removeRow (- 1) [''a'', ''b'', ''c''] = [''a'', ''b'', ''c'']"
  using removeRow_total [of 1 "[''a'', ''b'', ''c'']"]
    removeRow_total [of 3 "[''a'', ''b'', ''c'']"]
    removeRow_total [of "- 1" "[''a'', ''b'', ''c'']"]
  by simp

end
